theory Spec2Isabelle
  imports Complex_Main "HOL-Library.Sublist"
begin

section \<open>Strings, lines and the hand-compiled patterns\<close>

text \<open>
  A Python \<open>str\<close> is modelled as a \<open>string\<close>: a list of 8-bit characters, read as the
  code points 0..255. Code points above that range (among them the line boundaries
  U+2028 and U+2029) are outside the model.
\<close>

text \<open>Python's \<open>needle in line\<close> on strings: \<open>needle\<close> occurs as a contiguous slice.\<close>

fun contains :: "string \<Rightarrow> string \<Rightarrow> bool" where
  "contains [] needle = (needle = [])"
| "contains (c # cs) needle = (prefix needle (c # cs) \<or> contains cs needle)"

text \<open>
  \<open>str.splitlines()\<close>: a line ends at \<open>\n\<close>, \<open>\r\<close>, \<open>\r\n\<close>, \<open>\v\<close>, \<open>\f\<close>,
  \<open>\x1c\<close>, \<open>\x1d\<close>, \<open>\x1e\<close> or \<open>\x85\<close>; the terminators are dropped and no empty
  line is added after a final terminator.
\<close>

definition is_break :: "char \<Rightarrow> bool" where
  "is_break c = (c \<in> {CHR 0x0A, CHR 0x0B, CHR 0x0C, CHR 0x0D, CHR 0x1C, CHR 0x1D, CHR 0x1E, CHR 0x85})"

fun splitlines_aux :: "string \<Rightarrow> string \<Rightarrow> string list" where
  "splitlines_aux cur [] = (if cur = [] then [] else [cur])"
| "splitlines_aux cur [c] = (if is_break c then [cur] else [cur @ [c]])"
| "splitlines_aux cur (c # d # cs) =
     (if c = CHR 0x0D \<and> d = CHR 0x0A then cur # splitlines_aux [] cs
      else if is_break c then cur # splitlines_aux [] (d # cs)
      else splitlines_aux (cur @ [c]) (d # cs))"

definition splitlines :: "string \<Rightarrow> string list" where
  "splitlines s = splitlines_aux [] s"

text \<open>\<open>str.split(",")\<close>: the pieces between the separators, empty pieces kept.\<close>

fun split_aux :: "char \<Rightarrow> string \<Rightarrow> string \<Rightarrow> string list" where
  "split_aux sep cur [] = [cur]"
| "split_aux sep cur (c # cs) =
     (if c = sep then cur # split_aux sep [] cs else split_aux sep (cur @ [c]) cs)"

definition split :: "string \<Rightarrow> char \<Rightarrow> string list" where
  "split s sep = split_aux sep [] s"

text \<open>
  The regular expressions of the source are fixed, so each is compiled by hand into
  matchers in continuation style: a matcher takes the text at the current position and
  returns the first capture group of a successful match, trying the alternatives in the
  order of Python's backtracking engine (greedy first).
\<close>

definition is_digit :: "char \<Rightarrow> bool" where
  "is_digit c = (c \<in> set ''0123456789'')"

text \<open>A literal piece of a pattern.\<close>

definition match_lit :: "string \<Rightarrow> (string \<Rightarrow> 'a option) \<Rightarrow> string \<Rightarrow> 'a option" where
  "match_lit p k s = (if prefix p s then k (drop (length p) s) else None)"

text \<open>
  The group \<open>([0-9]+)\<close>: one or more digits, as many as possible first; the
  continuation receives the captured digits (after \<open>acc\<close>) and the rest of the text.
\<close>

fun match_digits :: "(string \<Rightarrow> string \<Rightarrow> 'a option) \<Rightarrow> string \<Rightarrow> string \<Rightarrow> 'a option" where
  "match_digits k acc [] = None"
| "match_digits k acc (c # cs) =
     (if is_digit c
      then (case match_digits k (acc @ [c]) cs of
              Some r \<Rightarrow> Some r
            | None \<Rightarrow> k (acc @ [c]) cs)
      else None)"

text \<open>\<open>.*\<close> and \<open>.+\<close>: any characters but \<open>\n\<close>, as many as possible first.\<close>

fun match_dot_star :: "(string \<Rightarrow> 'a option) \<Rightarrow> string \<Rightarrow> 'a option" where
  "match_dot_star k [] = k []"
| "match_dot_star k (c # cs) =
     (if c = CHR 0x0A then k (c # cs)
      else (case match_dot_star k cs of
              Some r \<Rightarrow> Some r
            | None \<Rightarrow> k (c # cs)))"

definition match_dot_plus :: "(string \<Rightarrow> 'a option) \<Rightarrow> string \<Rightarrow> 'a option" where
  "match_dot_plus k s =
     (case s of [] \<Rightarrow> None | c # cs \<Rightarrow> if c = CHR 0x0A then None else match_dot_star k cs)"

text \<open>\<open>re.search\<close>: the match at the leftmost position that has one.\<close>

fun re_search :: "(string \<Rightarrow> 'a option) \<Rightarrow> string \<Rightarrow> 'a option" where
  "re_search m [] = m []"
| "re_search m (c # cs) = (case m (c # cs) of Some r \<Rightarrow> Some r | None \<Rightarrow> re_search m cs)"

text \<open>\<open>int(...)\<close> on a string of ASCII digits.\<close>

definition digit_val :: "char \<Rightarrow> nat" where
  "digit_val c = of_char c - 48"

definition int_of_digits :: "string \<Rightarrow> nat" where
  "int_of_digits ds = foldl (\<lambda>a c. 10 * a + digit_val c) 0 ds"

text \<open>
  \<open>tests_count += int(re.search(pattern, line).group(1))\<close> inside
  \<open>try ... except (IndexError, AttributeError): pass\<close>: a search without a match
  returns \<open>None\<close>, \<open>.group\<close> raises AttributeError, and nothing is added.
\<close>

definition captured_int :: "string option \<Rightarrow> nat" where
  "captured_int g = (case g of None \<Rightarrow> 0 | Some ds \<Rightarrow> int_of_digits ds)"

text \<open>\<open>"collected ([0-9]+) items"\<close>\<close>

definition re_pytest :: "string \<Rightarrow> string option" where
  "re_pytest = re_search (match_lit ''collected '' (match_digits (\<lambda>g. match_lit '' items'' (\<lambda>_. Some g)) []))"

text \<open>\<open>"Ran ([0-9]+) tests in"\<close>\<close>

definition re_pyunittest :: "string \<Rightarrow> string option" where
  "re_pyunittest = re_search (match_lit ''Ran '' (match_digits (\<lambda>g. match_lit '' tests in'' (\<lambda>_. Some g)) []))"

text \<open>\<open>"Tests:.+, ([0-9]+) total"\<close>\<close>

definition re_npm :: "string \<Rightarrow> string option" where
  "re_npm = re_search (match_lit ''Tests:'' (match_dot_plus (match_lit '', ''
              (match_digits (\<lambda>g. match_lit '' total'' (\<lambda>_. Some g)) []))))"

text \<open>\<open>"([0-9]+) tests,"\<close>\<close>

definition re_rake :: "string \<Rightarrow> string option" where
  "re_rake = re_search (match_digits (\<lambda>g. match_lit '' tests,'' (\<lambda>_. Some g)) [])"

text \<open>\<open>"Tests run: ([0-9]+),"\<close>\<close>

definition re_maven :: "string \<Rightarrow> string option" where
  "re_maven = re_search (match_lit ''Tests run: '' (match_digits (\<lambda>g. match_lit '','' (\<lambda>_. Some g)) []))"

text \<open>\<open>"Tests: ([0-9]+)"\<close>\<close>

definition re_other :: "string \<Rightarrow> string option" where
  "re_other = re_search (match_lit ''Tests: '' (match_digits (\<lambda>g _. Some g) []))"

text \<open>
  Modelled from the spec: \<open>escape_ansi\<close> is imported from \<open>utils/helpers.py\<close>, whose
  definition of it is not part of the sources at hand. The spec describes it as removing
  every ANSI CSI escape sequence, ESC \<open>[\<close> ... terminated by a letter, and keeping all
  other characters and the line breaks. Here the part between \<open>[\<close> and the letter is any
  run of the parameter and intermediate characters 0x20..0x3F.
\<close>

definition is_csi_param :: "char \<Rightarrow> bool" where
  "is_csi_param c = (32 \<le> (of_char c :: nat) \<and> (of_char c :: nat) \<le> 63)"

definition is_letter :: "char \<Rightarrow> bool" where
  "is_letter c = ((65 \<le> (of_char c :: nat) \<and> (of_char c :: nat) \<le> 90) \<or>
                  (97 \<le> (of_char c :: nat) \<and> (of_char c :: nat) \<le> 122))"

function escape_ansi :: "string \<Rightarrow> string" where
  "escape_ansi [] = []"
| "escape_ansi (c # cs) =
     (if c = CHR 0x1B \<and> prefix ''['' cs \<and> dropWhile is_csi_param (tl cs) \<noteq> []
         \<and> is_letter (hd (dropWhile is_csi_param (tl cs)))
      then escape_ansi (tl (dropWhile is_csi_param (tl cs)))
      else c # escape_ansi cs)"
  by pat_completeness auto
termination
proof (relation "measure length")
  fix c :: char and cs :: string
  have "length (dropWhile is_csi_param (tl cs)) \<le> length (tl cs)"
    by (rule length_dropWhile_le)
  then show "(tl (dropWhile is_csi_param (tl cs)), c # cs) \<in> measure length"
    by simp
qed simp_all

section \<open>Counting unit tests in a CI log\<close>

definition KNOWN_TESTING_TOOLS :: "string list" where
  "KNOWN_TESTING_TOOLS = [''gotest'', ''pytest'', ''pyunittest'', ''npm'', ''rake'', ''maven'', ''other'']"

text \<open>
  \<open>BaseUnitTests._get_testing_tools\<close>: the names appended for one line, in the order of
  the source's \<open>if\<close> statements; the result is the set of all names found.
\<close>

definition tools_of_line :: "string \<Rightarrow> string list" where
  "tools_of_line line =
     (if contains line ''=== RUN '' then [''gotest''] else []) @
     (if contains line ''pytest'' \<or> contains line ''py.test'' then [''pytest''] else []) @
     (if contains line ''Ran '' \<and> contains line '' tests in '' then [''pyunittest''] else []) @
     (if contains line ''Suite duration: '' \<and> contains line '' Tests: '' then [''other''] else []) @
     (if contains line ''npm'' \<or> contains line ''yarn test'' then [''npm''] else []) @
     (if contains line ''rake '' \<and> contains line ''validate'' then [''rake''] else []) @
     (if contains line ''maven'' then [''maven''] else [])"

definition get_testing_tools :: "string \<Rightarrow> string set" where
  "get_testing_tools ci_log = set (concat (map tools_of_line (splitlines (escape_ansi ci_log))))"

text \<open>The two termination markers tested at the head of the loop body.\<close>

definition termination_markers :: "string list" where
  "termination_markers = [''https://codecov.io/upload'', ''bonfire deploy-iqe-cji'']"

definition is_marker :: "string \<Rightarrow> bool" where
  "is_marker line = (contains line ''https://codecov.io/upload'' \<or> contains line ''bonfire deploy-iqe-cji'')"

text \<open>
  One pass of the loop body below the marker test: the amount the line adds to
  \<open>tests_count\<close>. Every branch ends in \<open>continue\<close>, so the first branch whose guard
  holds is the only one that runs.
\<close>

definition line_count :: "string set \<Rightarrow> string \<Rightarrow> nat" where
  "line_count tools line =
     (if ''gotest'' \<in> tools \<and> contains line ''=== RUN '' then 1
      else if ''pytest'' \<in> tools \<and> contains line ''collected '' \<and> contains line '' items'' then
        captured_int (re_pytest line)
      else if ''pyunittest'' \<in> tools \<and> contains line ''Ran '' \<and> contains line '' tests in '' then
        captured_int (re_pyunittest line)
      else if ''npm'' \<in> tools \<and> contains line ''Tests:'' \<and> contains line '' total'' then
        captured_int (re_npm line)
      else if ''rake'' \<in> tools \<and> list_all (contains line) [''tests'', ''assertions'', ''failures''] then
        captured_int (re_rake line)
      else if ''maven'' \<in> tools
          \<and> list_all (contains line) [''Tests run'', ''Failures'', ''Errors'', ''Skipped''] then
        captured_int (re_maven line)
      else if ''other'' \<in> tools \<and> contains line ''Suite duration: '' \<and> contains line '' Tests: '' then
        captured_int (re_other line)
      else 0)"

text \<open>
  The same seven branches as a table by tool name, for stating what a single tool does
  with a line: \<open>tool_guard\<close> is the substring test of the tool's branch and \<open>tool_value\<close>
  the amount the branch adds. A name outside \<open>KNOWN_TESTING_TOOLS\<close> has no branch.
\<close>

definition tool_guard :: "string \<Rightarrow> string \<Rightarrow> bool" where
  "tool_guard t line =
     (if t = ''gotest'' then contains line ''=== RUN ''
      else if t = ''pytest'' then contains line ''collected '' \<and> contains line '' items''
      else if t = ''pyunittest'' then contains line ''Ran '' \<and> contains line '' tests in ''
      else if t = ''npm'' then contains line ''Tests:'' \<and> contains line '' total''
      else if t = ''rake'' then list_all (contains line) [''tests'', ''assertions'', ''failures'']
      else if t = ''maven'' then
        list_all (contains line) [''Tests run'', ''Failures'', ''Errors'', ''Skipped'']
      else if t = ''other'' then contains line ''Suite duration: '' \<and> contains line '' Tests: ''
      else False)"

definition tool_value :: "string \<Rightarrow> string \<Rightarrow> nat" where
  "tool_value t line =
     (if t = ''gotest'' then 1
      else if t = ''pytest'' then captured_int (re_pytest line)
      else if t = ''pyunittest'' then captured_int (re_pyunittest line)
      else if t = ''npm'' then captured_int (re_npm line)
      else if t = ''rake'' then captured_int (re_rake line)
      else if t = ''maven'' then captured_int (re_maven line)
      else if t = ''other'' then captured_int (re_other line)
      else 0)"

text \<open>The \<open>for\<close> loop over the lines, with \<open>break\<close> at the first marker line.\<close>

fun tests_loop :: "string set \<Rightarrow> string list \<Rightarrow> nat \<Rightarrow> nat" where
  "tests_loop tools [] tests_count = tests_count"
| "tests_loop tools (line # rest) tests_count =
     (if is_marker line then tests_count
      else tests_loop tools rest (tests_count + line_count tools line))"

text \<open>
  The tool names in use: \<open>test_tool.split(",")\<close> when \<open>test_tool\<close> is a non-empty string,
  the detected set otherwise (\<open>None\<close> and the empty string are both falsy).
\<close>

definition resolve_tools :: "string \<Rightarrow> string option \<Rightarrow> string set" where
  "resolve_tools ci_log test_tool =
     (case test_tool of
        None \<Rightarrow> get_testing_tools ci_log
      | Some t \<Rightarrow> if t = [] then get_testing_tools ci_log else set (split t CHR '',''))"

text \<open>\<open>BaseUnitTests._get_tests_count\<close>.\<close>

definition get_tests_count :: "string \<Rightarrow> string option \<Rightarrow> nat" where
  "get_tests_count ci_log test_tool =
     tests_loop (resolve_tools ci_log test_tool) (splitlines (escape_ansi ci_log)) 0"

section \<open>Exceptions\<close>

text \<open>
  The exception classes that occur. \<open>SitrepsError\<close>, \<open>DownloadFailed\<close> and
  \<open>CodeCoverageError\<close> are the three subclasses of \<open>SitrepsException\<close> in
  \<open>exceptions.py\<close>; none is a subclass of another. \<open>KeyboardInterrupt\<close> stands for
  the exceptions that derive from \<open>BaseException\<close> only, which \<open>except Exception\<close>
  lets pass.
\<close>

datatype exn =
    SitrepsError | DownloadFailed | CodeCoverageError
  | ValueError | TypeError | IndexError | KeyError | AttributeError | UnboundLocalError
  | OverflowError
  | OtherException string
  | KeyboardInterrupt

definition is_Exception :: "exn \<Rightarrow> bool" where
  "is_Exception e = (e \<noteq> KeyboardInterrupt)"

section \<open>The retry loop \<open>wait_for\<close>\<close>

text \<open>
  The operation \<open>func\<close> takes no argument and may answer differently each time, so it is
  given by what its \<open>k\<close>-th invocation does; \<open>cost k\<close> is the time that invocation
  takes. \<open>time.time()\<close> reads the clock \<open>now\<close>, which moves during an invocation and
  during \<open>time.sleep\<close> only. \<open>truthy\<close> is Python's truth value of a result.
\<close>

datatype 'a attempt = Raises exn | Returns 'a

text \<open>What the run did, in order: the attempts, each with its start time, and the sleeps.\<close>

datatype event = Attempt nat real | Sleep real

text \<open>
  The local variables. \<open>response\<close> and \<open>err\<close> are assigned at the top of the loop body
  only: \<open>vars\<close> is \<open>None\<close> while they are unbound.
\<close>

record 'a loop_state =
  now :: real
  tries :: nat
  vars :: "('a option \<times> exn option) option"
  trace :: "event list"

text \<open>
  The \<open>while\<close> loop and the \<open>return\<close> after it. The result is the exception that leaves
  \<open>wait_for\<close> or the returned triple, together with the trace; a run that never leaves
  the loop has no result. \<open>time.sleep\<close> raises ValueError on a negative length.
\<close>

partial_function (option) wait_loop ::
  "(nat \<Rightarrow> 'a attempt) \<Rightarrow> (nat \<Rightarrow> real) \<Rightarrow> ('a \<Rightarrow> bool) \<Rightarrow> real \<Rightarrow> bool \<Rightarrow> real \<Rightarrow> 'a loop_state
     \<Rightarrow> ((exn + ('a option \<times> exn option \<times> nat)) \<times> event list) option" where
  "wait_loop func cost truthy delay ignore_falsy end_time st =
     (if now st < end_time then
        (case func (Suc (tries st)) of
           Raises e \<Rightarrow>
             if is_Exception e then
               wait_loop func cost truthy delay ignore_falsy end_time
                 \<lparr>now = now st + cost (Suc (tries st)), tries = Suc (tries st),
                  vars = Some (None, Some e),
                  trace = trace st @ [Attempt (Suc (tries st)) (now st)]\<rparr>
             else Some (Inl e, trace st @ [Attempt (Suc (tries st)) (now st)])
         | Returns v \<Rightarrow>
             if truthy v \<or> ignore_falsy then
               Some (Inr (Some v, None, Suc (tries st)),
                     trace st @ [Attempt (Suc (tries st)) (now st)])
             else if delay < 0 then
               Some (Inl ValueError, trace st @ [Attempt (Suc (tries st)) (now st)])
             else
               wait_loop func cost truthy delay ignore_falsy end_time
                 \<lparr>now = now st + cost (Suc (tries st)) + delay, tries = Suc (tries st),
                  vars = Some (Some v, None),
                  trace = trace st @ [Attempt (Suc (tries st)) (now st), Sleep delay]\<rparr>)
      else
        (case vars st of
           None \<Rightarrow> Some (Inl UnboundLocalError, trace st)
         | Some (response, err) \<Rightarrow> Some (Inr (response, err, tries st), trace st)))"

text \<open>\<open>wait_for\<close>, started when the clock shows \<open>start\<close>.\<close>

definition wait_for ::
  "(nat \<Rightarrow> 'a attempt) \<Rightarrow> (nat \<Rightarrow> real) \<Rightarrow> ('a \<Rightarrow> bool) \<Rightarrow> real \<Rightarrow> real \<Rightarrow> bool \<Rightarrow> real
     \<Rightarrow> ((exn + ('a option \<times> exn option \<times> nat)) \<times> event list) option" where
  "wait_for func cost truthy delay num_sec ignore_falsy start =
     wait_loop func cost truthy delay ignore_falsy (start + num_sec)
       \<lparr>now = start, tries = 0, vars = None, trace = []\<rparr>"

section \<open>Code coverage\<close>

subsection \<open>\<open>float(...)\<close> on a string\<close>

text \<open>
  A Python float is an IEEE 754 double: \<open>Finite x\<close> for a real \<open>x\<close> that a double
  holds, an infinity with its sign (\<open>True\<close> for the negative one), or NaN. The two
  zeros, equal in Python, are both \<open>Finite 0\<close>.
\<close>

datatype pyfloat = Finite real | Infinity bool | NaN

text \<open>
  Rounding the quotient \<open>n / d\<close> of a natural number and a positive one, both held as
  Python ints, to a double: to nearest, ties to even. \<open>bit_length\<close> is
  \<open>int.bit_length\<close>; \<open>binary_exponent n d\<close> is the \<open>e\<close> with
  \<open>2 ^ e \<le> n / d < 2 ^ (e + 1)\<close>. A double has 53 significant bits and no exponent
  below -1022, so the quotient is rounded to a multiple of \<open>2 ^ (e - 52)\<close>, with \<open>e\<close> at
  least -1022. The result is \<open>None\<close> when it reaches \<open>2 ^ 1024\<close>, beyond the largest
  double.
\<close>

definition round_half_even :: "int \<Rightarrow> int \<Rightarrow> int" where
  "round_half_even n d =
     (if 2 * (n mod d) < d then n div d
      else if d < 2 * (n mod d) then n div d + 1
      else if even (n div d) then n div d
      else n div d + 1)"

function bit_length :: "int \<Rightarrow> nat" where
  "bit_length n = (if n \<le> 0 then 0 else Suc (bit_length (n div 2)))"
  by pat_completeness auto
termination
  by (relation "measure nat") auto

definition scale2 :: "int \<Rightarrow> int \<Rightarrow> int \<Rightarrow> int \<times> int" where
  "scale2 n s d = (if 0 \<le> s then (n, d * 2 ^ nat s) else (n * 2 ^ nat (- s), d))"

definition binary_exponent :: "int \<Rightarrow> int \<Rightarrow> int" where
  "binary_exponent n d =
     (let b = int (bit_length n) - int (bit_length d) in
      if snd (scale2 n b d) \<le> fst (scale2 n b d) then b else b - 1)"

definition to_double :: "int \<Rightarrow> int \<Rightarrow> real option" where
  "to_double n d =
     (if n = 0 then Some 0
      else
        (let e = max (binary_exponent n d) (- 1022);
             k = round_half_even (fst (scale2 n (e - 52) d)) (snd (scale2 n (e - 52) d))
         in if 1023 < e \<or> (e = 1023 \<and> 2 ^ 53 \<le> k) then None
            else Some (if 0 \<le> e - 52 then real_of_int k * 2 ^ nat (e - 52)
                       else real_of_int k / 2 ^ nat (52 - e))))"

text \<open>
  \<open>float\<close> on a string. The text may carry white space at both ends, a sign, digits
  with single underscores between them, a fraction and an exponent, or be one of
  \<open>inf\<close>, \<open>infinity\<close>, \<open>nan\<close> in any case; anything else is a ValueError. The number is
  rounded to the nearest double, and to an infinity when it is too large for one. The
  white space stripped is what \<open>float\<close> strips: the ASCII space, \<open>\t\<close>, \<open>\n\<close>, \<open>\v\<close>,
  \<open>\f\<close>, \<open>\r\<close>, and of the code points from 128 on those that are spaces, 0x85 and 0xA0.
\<close>

definition is_space :: "char \<Rightarrow> bool" where
  "is_space c = (c \<in> {CHR 0x09, CHR 0x0A, CHR 0x0B, CHR 0x0C, CHR 0x0D, CHR 0x20, CHR 0x85, CHR 0xA0})"

definition strip :: "string \<Rightarrow> string" where
  "strip s = rev (dropWhile is_space (rev (dropWhile is_space s)))"

definition to_lower :: "char \<Rightarrow> char" where
  "to_lower c = (if 65 \<le> (of_char c :: nat) \<and> (of_char c :: nat) \<le> 90
                 then char_of ((of_char c :: nat) + 32) else c)"

definition take_sign :: "string \<Rightarrow> bool \<times> string" where
  "take_sign s =
     (case s of
        [] \<Rightarrow> (False, [])
      | c # cs \<Rightarrow> if c = CHR ''-'' then (True, cs) else if c = CHR ''+'' then (False, cs) else (False, s))"

fun digitpart_rest :: "string \<Rightarrow> string \<Rightarrow> string \<times> string" where
  "digitpart_rest acc [] = (acc, [])"
| "digitpart_rest acc [c] = (if is_digit c then (acc @ [c], []) else (acc, [c]))"
| "digitpart_rest acc (c # d # ds) =
     (if is_digit c then digitpart_rest (acc @ [c]) (d # ds)
      else if c = CHR ''_'' \<and> is_digit d then digitpart_rest (acc @ [d]) ds
      else (acc, c # d # ds))"

definition digitpart :: "string \<Rightarrow> (string \<times> string) option" where
  "digitpart s =
     (case s of
        [] \<Rightarrow> None
      | c # cs \<Rightarrow> if is_digit c then Some (digitpart_rest [c] cs) else None)"

text \<open>The digits before and after the point, and the rest of the text.\<close>

definition mantissa :: "string \<Rightarrow> (string \<times> string \<times> string) option" where
  "mantissa s =
     (case digitpart s of
        Some (ip, r) \<Rightarrow>
          (case r of
             [] \<Rightarrow> Some (ip, [], [])
           | c # r1 \<Rightarrow>
               if c = CHR ''.'' then
                 (case digitpart r1 of
                    Some (fp, r2) \<Rightarrow> Some (ip, fp, r2)
                  | None \<Rightarrow> Some (ip, [], r1))
               else Some (ip, [], r))
      | None \<Rightarrow>
          (case s of
             [] \<Rightarrow> None
           | c # r1 \<Rightarrow>
               if c = CHR ''.'' then
                 (case digitpart r1 of
                    Some (fp, r2) \<Rightarrow> Some ([], fp, r2)
                  | None \<Rightarrow> None)
               else None))"

text \<open>The value of a run of digits, as a Python int.\<close>

definition digits_value :: "string \<Rightarrow> int" where
  "digits_value ds = foldl (\<lambda>a c. 10 * a + int (digit_val c)) 0 ds"

definition exponent :: "string \<Rightarrow> (int \<times> string) option" where
  "exponent s =
     (case s of
        [] \<Rightarrow> Some (0, [])
      | c # cs \<Rightarrow>
          if c = CHR ''e'' \<or> c = CHR ''E'' then
            (case digitpart (snd (take_sign cs)) of
               None \<Rightarrow> None
             | Some (ds, r) \<Rightarrow>
                 Some (if fst (take_sign cs) then - digits_value ds else digits_value ds, r))
          else Some (0, s))"

text \<open>The number a literal denotes, as a quotient of two naturals.\<close>

definition scale10 :: "int \<Rightarrow> int \<Rightarrow> int \<times> int" where
  "scale10 m e = (if 0 \<le> e then (m * 10 ^ nat e, 1) else (m, 10 ^ nat (- e)))"

definition finite_literal :: "string \<Rightarrow> (int \<times> int) option" where
  "finite_literal s =
     (case mantissa s of
        None \<Rightarrow> None
      | Some (ip, fp, r) \<Rightarrow>
          (case exponent r of
             None \<Rightarrow> None
           | Some (e, r') \<Rightarrow>
               if r' = [] then Some (scale10 (digits_value (ip @ fp)) (e - int (length fp)))
               else None))"

definition py_float :: "string \<Rightarrow> exn + pyfloat" where
  "py_float s =
     (let neg = fst (take_sign (strip s)); body = map to_lower (snd (take_sign (strip s))) in
      if body = ''inf'' \<or> body = ''infinity'' then Inr (Infinity neg)
      else if body = ''nan'' then Inr NaN
      else (case finite_literal body of
              None \<Rightarrow> Inl ValueError
            | Some (n, d) \<Rightarrow>
                (case to_double n d of
                   None \<Rightarrow> Inr (Infinity neg)
                 | Some x \<Rightarrow> Inr (Finite (if neg then - x else x)))))"

subsection \<open>The Codecov response\<close>

text \<open>
  What \<open>response.json()\<close> returns: \<open>None\<close>, a bool, an int, a float, a string, a list
  or a dict, which is the list of its items.
\<close>

datatype json =
    JNull | JBool bool | JInt int | JFloat pyfloat | JStr string | JArr "json list"
  | JObj "(string \<times> json) list"

definition sum_bind :: "exn + 'a \<Rightarrow> ('a \<Rightarrow> exn + 'b) \<Rightarrow> exn + 'b" where
  "sum_bind r f = (case r of Inl e \<Rightarrow> Inl e | Inr v \<Rightarrow> f v)"

text \<open>\<open>x.get(key, default)\<close>; only a dict has the method.\<close>

definition dict_get :: "json \<Rightarrow> string \<Rightarrow> json \<Rightarrow> exn + json" where
  "dict_get x key dflt =
     (case x of
        JObj items \<Rightarrow> Inr (case map_of items key of None \<Rightarrow> dflt | Some v \<Rightarrow> v)
      | _ \<Rightarrow> Inl AttributeError)"

definition json_truthy :: "json \<Rightarrow> bool" where
  "json_truthy x =
     (case x of
        JNull \<Rightarrow> False | JBool b \<Rightarrow> b | JInt n \<Rightarrow> n \<noteq> 0 | JFloat f \<Rightarrow> f \<noteq> Finite 0
      | JStr s \<Rightarrow> s \<noteq> [] | JArr xs \<Rightarrow> xs \<noteq> [] | JObj items \<Rightarrow> items \<noteq> [])"

text \<open>\<open>x[0]\<close> for a truthy \<open>x\<close>. The keys of a parsed JSON object are strings, so \<open>0\<close> is never one.\<close>

definition subscript0 :: "json \<Rightarrow> exn + json" where
  "subscript0 x =
     (case x of
        JArr xs \<Rightarrow> (case xs of [] \<Rightarrow> Inl IndexError | y # _ \<Rightarrow> Inr y)
      | JStr s \<Rightarrow> (case s of [] \<Rightarrow> Inl IndexError | c # _ \<Rightarrow> Inr (JStr [c]))
      | JObj items \<Rightarrow> Inl KeyError
      | _ \<Rightarrow> Inl TypeError)"

text \<open>
  \<open>float(x)\<close> for a value \<open>x\<close> of the response. An int is rounded to the nearest
  double, and one too large for a double is an OverflowError.
\<close>

definition json_float :: "json \<Rightarrow> exn + pyfloat" where
  "json_float x =
     (case x of
        JStr s \<Rightarrow> py_float s
      | JInt n \<Rightarrow>
          (case to_double \<bar>n\<bar> 1 of
             None \<Rightarrow> Inl OverflowError
           | Some v \<Rightarrow> Inr (Finite (if n < 0 then - v else v)))
      | JFloat f \<Rightarrow> Inr f
      | JBool b \<Rightarrow> Inr (Finite (if b then 1 else 0))
      | _ \<Rightarrow> Inl TypeError)"

text \<open>\<open>response_json.get("commit", {}).get("totals", {})\<close>\<close>

definition commit_totals :: "json \<Rightarrow> exn + json" where
  "commit_totals response_json =
     sum_bind (dict_get response_json ''commit'' (JObj [])) (\<lambda>commit. dict_get commit ''totals'' (JObj []))"

text \<open>
  \<open>CodecovCoverage.get_coverage\<close> from \<open>response_json = response.json()\<close> on: the
  selection of \<open>coverage_ratio_str\<close> and its conversion.
\<close>

definition coverage_ratio_str :: "json \<Rightarrow> exn + json" where
  "coverage_ratio_str response_json =
     sum_bind (commit_totals response_json) (\<lambda>totals.
       if json_truthy totals then dict_get totals ''c'' JNull
       else sum_bind (dict_get response_json ''commits'' (JArr [])) (\<lambda>commits.
         if json_truthy commits then
           sum_bind (subscript0 commits) (\<lambda>first.
             sum_bind (dict_get first ''totals'' (JObj [])) (\<lambda>totals'. dict_get totals' ''c'' JNull))
         else Inr JNull))"

definition get_coverage :: "json \<Rightarrow> exn + pyfloat option" where
  "get_coverage response_json =
     sum_bind (coverage_ratio_str response_json) (\<lambda>c.
       if c = JNull then Inr None
       else sum_bind (json_float c) (\<lambda>coverage_ratio. Inr (Some coverage_ratio)))"

subsection \<open>Coverage by a pattern\<close>

text \<open>
  \<open>get_regex_cov\<close> takes any pattern, so \<open>re.search\<close> is a parameter here: it raises
  (on a pattern that does not compile), finds no match, or returns a match, which is
  given by its groups 1, 2, ... in order; a group that took no part in the match is
  \<open>None\<close>.
\<close>

type_synonym re_match = "string option list"

type_synonym re_engine = "string \<Rightarrow> string \<Rightarrow> exn + re_match option"

text \<open>
  \<open>match.group(1)\<close> raises IndexError when the pattern has no group; \<open>float\<close> raises
  TypeError on \<open>None\<close> and ValueError on a string that is no number. The handler is
  \<open>except (IndexError, ValueError)\<close>.
\<close>

definition get_regex_cov :: "re_engine \<Rightarrow> string \<Rightarrow> string \<Rightarrow> exn + pyfloat option" where
  "get_regex_cov search pattern string =
     sum_bind (search pattern string) (\<lambda>m.
       case m of
         None \<Rightarrow> Inr None
       | Some groups \<Rightarrow>
           (case groups of
              [] \<Rightarrow> Inr None
            | g # _ \<Rightarrow>
                (case g of
                   None \<Rightarrow> Inl TypeError
                 | Some text \<Rightarrow>
                     (case py_float text of
                        Inl e \<Rightarrow> if e = IndexError \<or> e = ValueError then Inr None else Inl e
                      | Inr x \<Rightarrow> Inr (Some x)))))"

definition htmlcov_pattern :: string where
  "htmlcov_pattern = ''<span class='' @ [CHR 0x22] @ ''pc_cov'' @ [CHR 0x22] @ ''>([0-9]+)%</span>''"

definition get_htmlcov :: "re_engine \<Rightarrow> string \<Rightarrow> exn + pyfloat option" where
  "get_htmlcov search string = get_regex_cov search htmlcov_pattern string"

text \<open>
  \<open>CICoverage.get_coverage\<close>; \<open>fetched\<close> is what \<open>self.ci_downloader.get_text(self.url)\<close>
  does, and \<open>pattern\<close> the attribute of that name.
\<close>

definition ci_get_coverage :: "re_engine \<Rightarrow> string option \<Rightarrow> exn + string \<Rightarrow> exn + pyfloat option" where
  "ci_get_coverage search pattern fetched =
     (case fetched of
        Inl e \<Rightarrow> if e = SitrepsError then Inl CodeCoverageError else Inl e
      | Inr string \<Rightarrow>
          (case pattern of
             None \<Rightarrow> get_htmlcov search string
           | Some p \<Rightarrow> if p = [] then get_htmlcov search string else get_regex_cov search p string))"

section \<open>The collectors of unit-test counts\<close>

text \<open>
  The network is outside the functions modelled here, so each collector is given what its
  fetch does. \<open>TravisUnitTests.get_logs\<close> is a generator: it runs as the caller
  iterates, yielding a log or raising at each step.
\<close>

datatype gen_step = Yield string | Raise exn

text \<open>
  \<open>TravisUnitTests.get_num_of_tests\<close>. Its \<open>try\<close> holds only the call
  \<open>self.get_logs()\<close>, which creates the generator and runs none of its body, so the
  handler that returns \<open>None\<close> is never entered; what the generator raises leaves the
  \<open>for\<close> loop.
\<close>

fun travis_get_num_of_tests :: "string option \<Rightarrow> gen_step list \<Rightarrow> exn + nat option" where
  "travis_get_num_of_tests test_tool [] = Inr (Some 0)"
| "travis_get_num_of_tests test_tool (Raise e # rest) = Inl e"
| "travis_get_num_of_tests test_tool (Yield ci_log # rest) =
     (if get_tests_count ci_log test_tool > 0 then Inr (Some (get_tests_count ci_log test_tool))
      else travis_get_num_of_tests test_tool rest)"

text \<open>\<open>GHActionUnitTests.get_num_of_tests\<close>; \<open>logs\<close> is what \<open>self.get_logs()\<close> does, the logs decoded.\<close>

definition gh_get_num_of_tests :: "string option \<Rightarrow> exn + string list \<Rightarrow> exn + nat option" where
  "gh_get_num_of_tests test_tool logs =
     (case logs of
        Inl e \<Rightarrow> Inl e
      | Inr ls \<Rightarrow>
          if ls = [] then Inr (Some 0)
          else Inr (Some (sum_list (map (\<lambda>log. get_tests_count log test_tool) ls))))"

text \<open>\<open>CIUnitTests.get_num_of_tests\<close>; \<open>fetched\<close> is what \<open>self.ci_downloader.get_text(self.url)\<close> does.\<close>

definition ci_get_num_of_tests :: "string option \<Rightarrow> exn + string \<Rightarrow> exn + nat option" where
  "ci_get_num_of_tests test_tool fetched =
     (case fetched of
        Inl e \<Rightarrow> if is_Exception e then Inr None else Inl e
      | Inr string \<Rightarrow> Inr (Some (get_tests_count string test_tool)))"

text \<open>
  The last loop of \<open>get_unit_tests\<close>: each collector's result replaces it in the dict,
  a SitrepsError becomes 0, any other exception leaves the function.
\<close>

fun collect :: "(string \<times> (exn + nat option)) list \<Rightarrow> exn + (string \<times> nat option) list" where
  "collect [] = Inr []"
| "collect ((key, r) # rest) =
     (case r of
        Inl e \<Rightarrow>
          if e = SitrepsError then sum_bind (collect rest) (\<lambda>done. Inr ((key, Some 0) # done))
          else Inl e
      | Inr v \<Rightarrow> sum_bind (collect rest) (\<lambda>done. Inr ((key, v) # done)))"

text \<open>
  \<open>get_unit_tests\<close>. An argument is \<open>None\<close> when its settings are missing or empty;
  otherwise it holds the \<open>test_tool\<close> setting and what the collector's fetch does.
\<close>

definition get_unit_tests ::
  "(string option \<times> gen_step list) option \<Rightarrow> (string option \<times> (exn + string list)) option
     \<Rightarrow> (string option \<times> (exn + string)) option \<Rightarrow> exn + (string \<times> nat option) list" where
  "get_unit_tests travis gh_action jenkins =
     collect
       ((case travis of None \<Rightarrow> [] | Some (tool, gen) \<Rightarrow> [(''travis'', travis_get_num_of_tests tool gen)]) @
        (case gh_action of None \<Rightarrow> [] | Some (tool, logs) \<Rightarrow> [(''gh_action'', gh_get_num_of_tests tool logs)]) @
        (case jenkins of None \<Rightarrow> [] | Some (tool, fetched) \<Rightarrow> [(''jenkins'', ci_get_num_of_tests tool fetched)]))"

section \<open>Properties of the test count\<close>

subsection \<open>Substrings and lines\<close>

lemma contains_iff: "contains h n \<longleftrightarrow> (\<exists>xs ys. h = xs @ n @ ys)"
proof (induction h)
  case Nil
  then show ?case by auto
next
  case (Cons c cs)
  show ?case
  proof
    assume "contains (c # cs) n"
    then consider "prefix n (c # cs)" | "contains cs n" by auto
    then show "\<exists>xs ys. c # cs = xs @ n @ ys"
    proof cases
      case 1
      then obtain ys where "c # cs = n @ ys" by (auto simp: prefix_def)
      then have "c # cs = [] @ n @ ys" by simp
      then show ?thesis by blast
    next
      case 2
      with Cons.IH obtain xs ys where "cs = xs @ n @ ys" by blast
      then have "c # cs = (c # xs) @ n @ ys" by simp
      then show ?thesis by blast
    qed
  next
    assume "\<exists>xs ys. c # cs = xs @ n @ ys"
    then obtain xs ys where e: "c # cs = xs @ n @ ys" by blast
    show "contains (c # cs) n"
    proof (cases xs)
      case Nil
      with e have "prefix n (c # cs)" by (simp add: prefix_def)
      then show ?thesis by simp
    next
      case (Cons x xs')
      with e have "cs = xs' @ n @ ys" by simp
      with Cons.IH have "contains cs n" by blast
      then show ?thesis by simp
    qed
  qed
qed

lemma splitlines_aux_plain:
  "\<forall>c\<in>set m. \<not> is_break c \<Longrightarrow> splitlines_aux cur (m @ r) = splitlines_aux (cur @ m) r"
proof (induction m arbitrary: cur)
  case Nil
  then show ?case by simp
next
  case (Cons c m)
  then have nb: "\<not> is_break c" and rest: "\<forall>c\<in>set m. \<not> is_break c" by auto
  from nb have ncr: "c \<noteq> CHR 0x0D" by (auto simp: is_break_def)
  show ?case
  proof (cases "m @ r")
    case Nil
    then show ?thesis using nb by simp
  next
    case (Cons d ds)
    have "splitlines_aux cur (c # d # ds) = splitlines_aux (cur @ [c]) (d # ds)"
      using nb ncr by simp
    also have "\<dots> = splitlines_aux (cur @ [c]) (m @ r)" using Cons by simp
    also have "\<dots> = splitlines_aux ((cur @ [c]) @ m) r" using Cons.IH[OF rest] .
    finally show ?thesis using Cons by simp
  qed
qed

lemma splitlines_aux_head:
  "cur \<noteq> [] \<Longrightarrow> \<exists>l ls. splitlines_aux cur r = l # ls \<and> prefix cur l"
proof (induction cur r rule: splitlines_aux.induct)
  case (1 cur)
  then show ?case by simp
next
  case (2 cur c)
  then show ?case by simp
next
  case (3 cur c d cs)
  show ?case
  proof (cases "(c = CHR 0x0D \<and> d = CHR 0x0A) \<or> is_break c")
    case True
    then show ?thesis by auto
  next
    case False
    then have "\<exists>l ls. splitlines_aux (cur @ [c]) (d # cs) = l # ls \<and> prefix (cur @ [c]) l"
      using 3 by simp
    then obtain l ls where e: "splitlines_aux (cur @ [c]) (d # cs) = l # ls" and p: "prefix (cur @ [c]) l"
      by blast
    from p have "prefix cur l" using append_prefixD by blast
    with e False show ?thesis by simp
  qed
qed

lemma marker_chars:
  "mk \<in> set termination_markers \<Longrightarrow> mk \<noteq> [] \<and> (\<forall>c\<in>set mk. \<not> is_break c)"
  by (auto simp: termination_markers_def is_break_def)

lemma is_marker_iff:
  "is_marker line \<longleftrightarrow> (\<exists>mk\<in>set termination_markers. contains line mk)"
  by (simp add: is_marker_def termination_markers_def)

lemma tests_loop_marker_first:
  assumes "mk \<in> set termination_markers"
  shows "tests_loop tools (splitlines_aux cur (mk @ r)) acc = acc"
proof -
  from marker_chars[OF assms] have ne: "mk \<noteq> []" and nb: "\<forall>c\<in>set mk. \<not> is_break c" by auto
  have "splitlines_aux cur (mk @ r) = splitlines_aux (cur @ mk) r"
    using splitlines_aux_plain[OF nb] .
  moreover from ne have "cur @ mk \<noteq> []" by simp
  from splitlines_aux_head[OF this] obtain l ls
    where e: "splitlines_aux (cur @ mk) r = l # ls" and p: "prefix (cur @ mk) l" by blast
  from p obtain zs where "l = cur @ mk @ zs" by (auto simp: prefix_def)
  then have "contains l mk" using contains_iff by blast
  with assms have "is_marker l" using is_marker_iff by blast
  ultimately show ?thesis using e by simp
qed

lemma tests_loop_cut:
  assumes mk: "mk \<in> set termination_markers"
  shows "tests_loop tools (splitlines_aux cur (x @ mk @ r)) acc
       = tests_loop tools (splitlines_aux cur (x @ mk)) acc"
proof (induction x arbitrary: cur acc rule: induct_list012)
  case 1
  have "tests_loop tools (splitlines_aux cur (mk @ [])) acc = acc"
    using tests_loop_marker_first[OF mk] .
  then show ?case using tests_loop_marker_first[OF mk, of tools cur r acc] by simp
next
  case (2 c)
  from marker_chars[OF mk] obtain m ms where m: "mk = m # ms" and nb: "\<not> is_break m"
    by (cases mk) auto
  from nb have nlf: "m \<noteq> CHR 0x0A" by (auto simp: is_break_def)
  have a: "tests_loop tools (splitlines_aux cur' (mk @ r')) acc' = acc'" for cur' r' acc'
    using tests_loop_marker_first[OF mk] .
  have b: "splitlines_aux cur ([c] @ mk @ r') =
        (if is_break c then cur # splitlines_aux [] (mk @ r') else splitlines_aux (cur @ [c]) (mk @ r'))" for r'
    using nlf by (simp add: m)
  have a0: "tests_loop tools (splitlines_aux cur' mk) acc' = acc'" for cur' acc'
    using a[of cur' "[]" acc'] by simp
  show ?case using b[of r] b[of "[]"] a a0 by simp
next
  case (3 c d zs)
  show ?case
  proof (cases "c = CHR 0x0D \<and> d = CHR 0x0A")
    case True
    then show ?thesis using 3(1) by simp
  next
    case False
    then show ?thesis using 3(2) by auto
  qed
qed

lemma tests_loop_sum:
  "tests_loop tools lines acc
     = acc + sum_list (map (line_count tools) (takeWhile (\<lambda>l. \<not> is_marker l) lines))"
  by (induction lines arbitrary: acc) simp_all

subsection \<open>Lines after a termination marker\<close>

text \<open>
  C2. Lines after a termination marker do not change the total:
  \<open>_get_tests_count(logA + marker + logB, tools)\<close> equals
  \<open>_get_tests_count(logA + marker, tools)\<close>. The loop runs over the cleaned text, so the
  marker is one that is there after \<open>escape_ansi\<close>: both cleaned logs begin with the same
  text \<open>x\<close> followed by one of the two marker strings \<open>mk\<close>. The tool set is the same on
  both sides, which it always is when \<open>test_tool\<close> names the tools.
\<close>

theorem get_tests_count_after_marker:
  assumes "mk \<in> set termination_markers"
    and "escape_ansi (logA @ marker) = x @ mk @ r2"
    and "escape_ansi (logA @ marker @ logB) = x @ mk @ r1"
    and "resolve_tools (logA @ marker @ logB) test_tool = resolve_tools (logA @ marker) test_tool"
  shows "get_tests_count (logA @ marker @ logB) test_tool = get_tests_count (logA @ marker) test_tool"
proof -
  let ?tools = "resolve_tools (logA @ marker) test_tool"
  have "tests_loop ?tools (splitlines_aux [] (x @ mk @ r1)) 0
      = tests_loop ?tools (splitlines_aux [] (x @ mk)) 0"
    by (rule tests_loop_cut[OF assms(1)])
  also have "\<dots> = tests_loop ?tools (splitlines_aux [] (x @ mk @ r2)) 0"
    by (rule tests_loop_cut[OF assms(1), symmetric])
  finally show ?thesis
    using assms(2-4) by (simp add: get_tests_count_def splitlines_def)
qed

theorem get_tests_count_after_marker_witness:
  "''https://codecov.io/upload'' \<in> set termination_markers
   \<and> escape_ansi (''collected 5 items\<newline>'' @ ''https://codecov.io/upload'')
       = ''collected 5 items\<newline>'' @ ''https://codecov.io/upload'' @ []
   \<and> escape_ansi (''collected 5 items\<newline>'' @ ''https://codecov.io/upload'' @ ''\<newline>collected 7 items'')
       = ''collected 5 items\<newline>'' @ ''https://codecov.io/upload'' @ ''\<newline>collected 7 items''
   \<and> get_tests_count (''collected 5 items\<newline>'' @ ''https://codecov.io/upload'' @ ''\<newline>collected 7 items'')
         (Some ''pytest'')
       = get_tests_count (''collected 5 items\<newline>'' @ ''https://codecov.io/upload'') (Some ''pytest'')"
proof -
  have m: "''https://codecov.io/upload'' \<in> set termination_markers"
    by (simp add: termination_markers_def)
  have e2: "escape_ansi (''collected 5 items\<newline>'' @ ''https://codecov.io/upload'')
       = ''collected 5 items\<newline>'' @ ''https://codecov.io/upload'' @ []"
    by code_simp
  have e1: "escape_ansi (''collected 5 items\<newline>'' @ ''https://codecov.io/upload'' @ ''\<newline>collected 7 items'')
       = ''collected 5 items\<newline>'' @ ''https://codecov.io/upload'' @ ''\<newline>collected 7 items''"
    by code_simp
  have t: "resolve_tools (''collected 5 items\<newline>'' @ ''https://codecov.io/upload'' @ ''\<newline>collected 7 items'')
             (Some ''pytest'')
         = resolve_tools (''collected 5 items\<newline>'' @ ''https://codecov.io/upload'') (Some ''pytest'')"
    by (simp add: resolve_tools_def)
  show ?thesis
    using m e2 e1 get_tests_count_after_marker[OF m e2 e1 t] by blast
qed

subsection \<open>The worked example\<close>

text \<open>
  C6. For the log of the three lines \<open>collected 12 items\<close>, \<open>=== RUN TestFoo\<close>,
  \<open>collected 3 items\<close> the count is 15 with the tool pytest, 1 with gotest and 16 with
  both.
\<close>

theorem get_tests_count_example:
  "get_tests_count ''collected 12 items\<newline>=== RUN TestFoo\<newline>collected 3 items'' (Some ''pytest'') = 15
   \<and> get_tests_count ''collected 12 items\<newline>=== RUN TestFoo\<newline>collected 3 items'' (Some ''gotest'') = 1
   \<and> get_tests_count ''collected 12 items\<newline>=== RUN TestFoo\<newline>collected 3 items'' (Some ''pytest,gotest'') = 16"
  by code_simp

subsection \<open>One tool for each line\<close>

lemma line_count_first:
  "line_count tools line =
     (case find (\<lambda>t. t \<in> tools \<and> tool_guard t line) KNOWN_TESTING_TOOLS of
        None \<Rightarrow> 0 | Some t \<Rightarrow> tool_value t line)"
  by (simp add: line_count_def KNOWN_TESTING_TOOLS_def tool_guard_def tool_value_def)

lemma find_single:
  "find (\<lambda>u. u = t \<and> P u) xs = (if t \<in> set xs \<and> P t then Some t else None)"
  by (induction xs) auto

lemma line_count_single:
  "t \<in> set KNOWN_TESTING_TOOLS \<Longrightarrow>
     line_count {t} line = (if tool_guard t line then tool_value t line else 0)"
  by (simp add: line_count_first find_single)

lemma line_count_one_tool:
  "line_count tools line = 0 \<or>
   (\<exists>t\<in>tools. tool_guard t line \<and> line_count tools line = tool_value t line
       \<and> line_count tools line = line_count {t} line)"
proof (cases "find (\<lambda>t. t \<in> tools \<and> tool_guard t line) KNOWN_TESTING_TOOLS")
  case None
  then show ?thesis by (simp add: line_count_first)
next
  case (Some t)
  then have t: "t \<in> tools" "tool_guard t line" "t \<in> set KNOWN_TESTING_TOOLS"
    by (auto simp: find_Some_iff)
  from Some have "line_count tools line = tool_value t line" by (simp add: line_count_first)
  moreover from t have "line_count {t} line = tool_value t line" by (simp add: line_count_single)
  ultimately show ?thesis using t by auto
qed

text \<open>
  C1, as the code has it. A line on which the substring tests of several tools of the
  set hold is handled by one branch only, that of the first such tool in the order
  gotest, pytest, pyunittest, npm, rake, maven, other. The total is the sum, over the
  lines before the first marker line, of the amount of that branch: 1 for gotest, else
  the number the tool's pattern captures on the line, and nothing when the pattern finds
  none there. The tools after it get nothing from the line, whether or not their patterns
  match.
\<close>

theorem get_tests_count_first_match:
  "get_tests_count ci_log test_tool =
     sum_list (map (\<lambda>line. case find (\<lambda>t. t \<in> resolve_tools ci_log test_tool \<and> tool_guard t line)
                                    KNOWN_TESTING_TOOLS of
                            None \<Rightarrow> 0 | Some t \<Rightarrow> tool_value t line)
                   (takeWhile (\<lambda>l. \<not> is_marker l) (splitlines (escape_ansi ci_log))))"
proof -
  have "line_count (resolve_tools ci_log test_tool)
      = (\<lambda>line. case find (\<lambda>t. t \<in> resolve_tools ci_log test_tool \<and> tool_guard t line)
                                    KNOWN_TESTING_TOOLS of
                            None \<Rightarrow> 0 | Some t \<Rightarrow> tool_value t line)"
    by (rule ext) (rule line_count_first)
  then show ?thesis
    by (simp add: get_tests_count_def tests_loop_sum)
qed

text \<open>
  C1 as stated fails: the line \<open>=== RUN collected 5 items\<close> adds 1 under gotest alone
  and 5 under pytest alone, but under both tools it adds 1, not 6.
\<close>

theorem line_counted_once_counterexample:
  "get_tests_count ''=== RUN collected 5 items'' (Some ''gotest'') = 1
   \<and> get_tests_count ''=== RUN collected 5 items'' (Some ''pytest'') = 5
   \<and> get_tests_count ''=== RUN collected 5 items'' (Some ''gotest,pytest'') = 1"
  by code_simp

text \<open>
  C7. No line is counted twice: the total is the sum of one amount for each line before
  the first marker line, and the amount of a line is either nothing or the amount of a
  single tool of the set, the one it would add were that tool the only one.
\<close>

theorem line_counts_for_one_tool:
  "get_tests_count ci_log test_tool =
     sum_list (map (line_count (resolve_tools ci_log test_tool))
                   (takeWhile (\<lambda>l. \<not> is_marker l) (splitlines (escape_ansi ci_log))))
   \<and> (line_count tools line = 0 \<or>
      (\<exists>t\<in>tools. tool_guard t line \<and> line_count tools line = tool_value t line
          \<and> line_count tools line = line_count {t} line))"
  using line_count_one_tool[of tools line]
  by (simp add: get_tests_count_def tests_loop_sum)

section \<open>Properties of \<open>wait_for\<close>\<close>

lemma wait_loop_raise_step:
  assumes "now st < end_time" and "func (Suc (tries st)) = Raises e" and "is_Exception e"
  shows "wait_loop func cost truthy delay ignore_falsy end_time st
       = wait_loop func cost truthy delay ignore_falsy end_time
           \<lparr>now = now st + cost (Suc (tries st)), tries = Suc (tries st),
            vars = Some (None, Some e),
            trace = trace st @ [Attempt (Suc (tries st)) (now st)]\<rparr>"
  using assms by (subst wait_loop.simps) simp

lemma wait_loop_return_step:
  assumes "now st < end_time" and "func (Suc (tries st)) = Returns v" and "truthy v \<or> ignore_falsy"
  shows "wait_loop func cost truthy delay ignore_falsy end_time st
       = Some (Inr (Some v, None, Suc (tries st)), trace st @ [Attempt (Suc (tries st)) (now st)])"
  using assms by (subst wait_loop.simps) auto

text \<open>
  C4. The claim is that \<open>wait_for\<close> never raises, also for \<open>num_sec\<close> at most 0. With
  such a \<open>num_sec\<close> the loop body never runs, \<open>response\<close> and \<open>err\<close> are unbound at the
  final \<open>return\<close>, and the function ends in an UnboundLocalError without any attempt.
\<close>

theorem wait_for_unbound_locals:
  assumes "num_sec \<le> 0"
  shows "wait_for func cost truthy delay num_sec ignore_falsy start = Some (Inl UnboundLocalError, [])"
  using assms by (simp add: wait_for_def wait_loop.simps)

theorem wait_for_unbound_locals_witness:
  "wait_for (\<lambda>k. Returns ''ok'') (\<lambda>k. 1) (\<lambda>v. v \<noteq> []) 2 0 False 0 = Some (Inl UnboundLocalError, [])"
proof -
  have h: "(0::real) \<le> 0" by simp
  show ?thesis by (rule wait_for_unbound_locals[OF h])
qed

text \<open>
  C5. The claim is that after an attempt that raised the loop waits \<open>delay\<close> seconds
  before the next one. The handler ends in \<open>continue\<close>, which skips \<open>time.sleep\<close>: when
  the first attempt raises and the second succeeds, the second starts the moment the
  first has ended, at \<open>start + cost 1\<close>, whatever \<open>delay\<close> is, and the run has no sleep.
\<close>

theorem wait_for_retries_without_sleep:
  assumes "func 1 = Raises e" and "is_Exception e"
    and "func 2 = Returns v" and "truthy v"
    and "0 < num_sec" and "cost 1 < num_sec"
  shows "wait_for func cost truthy delay num_sec ignore_falsy start
       = Some (Inr (Some v, None, 2), [Attempt 1 start, Attempt 2 (start + cost 1)])"
proof -
  let ?w = "wait_loop func cost truthy delay ignore_falsy (start + num_sec)"
  let ?s0 = "\<lparr>now = start, tries = 0, vars = None, trace = []\<rparr> :: 'a loop_state"
  let ?s1 = "\<lparr>now = start + cost 1, tries = 1, vars = Some (None, Some e),
              trace = [Attempt 1 start]\<rparr> :: 'a loop_state"
  have "?w ?s0 = ?w ?s1"
    using wait_loop_raise_step[of ?s0 "start + num_sec" func e] assms by simp
  also have "?w ?s1 = Some (Inr (Some v, None, 2), [Attempt 1 start, Attempt 2 (start + cost 1)])"
    using wait_loop_return_step[of ?s1 "start + num_sec" func v truthy] assms
    by (simp add: numeral_2_eq_2)
  finally show ?thesis by (simp add: wait_for_def)
qed

theorem wait_for_retries_without_sleep_witness:
  "wait_for (\<lambda>k. if k = 1 then Raises (OtherException ''ConnectionError'') else Returns ''ok'')
      (\<lambda>k. 1) (\<lambda>v. v \<noteq> []) 2 10 False 0
     = Some (Inr (Some ''ok'', None, 2), [Attempt 1 0, Attempt 2 1])"
  using wait_for_retries_without_sleep[of
      "\<lambda>k. if k = 1 then Raises (OtherException ''ConnectionError'') else Returns ''ok''"
      "OtherException ''ConnectionError''" "''ok''" "\<lambda>v. v \<noteq> []" 10 "\<lambda>k. 1" 2 False 0]
  by (simp add: is_Exception_def)

text \<open>
  C8. An operation that raises on its first two invocations and returns a truthy value on
  the third, the three attempts ending within the timeout, is attempted three times, and
  \<open>wait_for\<close> returns that value with \<open>err\<close> \<open>None\<close> and \<open>tries\<close> 3.
\<close>

theorem wait_for_third_attempt:
  assumes "func 1 = Raises e1" and "is_Exception e1"
    and "func 2 = Raises e2" and "is_Exception e2"
    and "func 3 = Returns v" and "truthy v"
    and "0 \<le> cost 1" and "0 \<le> cost 2" and "0 \<le> cost 3"
    and "cost 1 + cost 2 + cost 3 < num_sec"
  shows "wait_for func cost truthy delay num_sec ignore_falsy start
       = Some (Inr (Some v, None, 3),
               [Attempt 1 start, Attempt 2 (start + cost 1), Attempt 3 (start + cost 1 + cost 2)])"
proof -
  let ?w = "wait_loop func cost truthy delay ignore_falsy (start + num_sec)"
  let ?s0 = "\<lparr>now = start, tries = 0, vars = None, trace = []\<rparr> :: 'a loop_state"
  let ?s1 = "\<lparr>now = start + cost 1, tries = 1, vars = Some (None, Some e1),
              trace = [Attempt 1 start]\<rparr> :: 'a loop_state"
  let ?s2 = "\<lparr>now = start + cost 1 + cost 2, tries = 2, vars = Some (None, Some e2),
              trace = [Attempt 1 start, Attempt 2 (start + cost 1)]\<rparr> :: 'a loop_state"
  have "?w ?s0 = ?w ?s1"
    using wait_loop_raise_step[of ?s0 "start + num_sec" func e1] assms by simp
  also have "?w ?s1 = ?w ?s2"
    using wait_loop_raise_step[of ?s1 "start + num_sec" func e2] assms
    by (simp add: numeral_2_eq_2)
  also have "?w ?s2 = Some (Inr (Some v, None, 3),
               [Attempt 1 start, Attempt 2 (start + cost 1), Attempt 3 (start + cost 1 + cost 2)])"
    using wait_loop_return_step[of ?s2 "start + num_sec" func v truthy] assms
    by (simp add: numeral_3_eq_3 numeral_2_eq_2)
  finally show ?thesis by (simp add: wait_for_def)
qed

theorem wait_for_third_attempt_witness:
  "wait_for (\<lambda>k. if k < 3 then Raises (OtherException ''ConnectionError'') else Returns ''ok'')
      (\<lambda>k. 1) (\<lambda>v. v \<noteq> []) 2 10 False 0
     = Some (Inr (Some ''ok'', None, 3), [Attempt 1 0, Attempt 2 1, Attempt 3 2])"
  using wait_for_third_attempt[of
      "\<lambda>k. if k < 3 then Raises (OtherException ''ConnectionError'') else Returns ''ok''"
      "OtherException ''ConnectionError''" "OtherException ''ConnectionError''" "''ok''"
      "\<lambda>v. v \<noteq> []" "\<lambda>k. 1" 10 2 False 0]
  by (simp add: is_Exception_def)

section \<open>Properties of the coverage functions\<close>

text \<open>
  C3. The response \<open>{"commit": {"totals": {"c": "92.5"}}}\<close> gives 92.5 and \<open>{}\<close> gives
  \<open>None\<close>. The claim is that a malformed \<open>c\<close> gives \<open>None\<close> as well; \<open>get_coverage\<close>
  passes it to \<open>float\<close> outside any handler, so the ValueError leaves the function.
\<close>

theorem get_coverage_examples:
  "get_coverage (JObj [(''commit'', JObj [(''totals'', JObj [(''c'', JStr ''92.5'')])])])
     = Inr (Some (Finite 92.5))
   \<and> get_coverage (JObj []) = Inr None
   \<and> (py_float text = Inl ValueError \<longrightarrow>
        get_coverage (JObj [(''commit'', JObj [(''totals'', JObj [(''c'', JStr text)])])])
          = Inl ValueError)"
proof -
  have a: "get_coverage (JObj [(''commit'', JObj [(''totals'', JObj [(''c'', JStr ''92.5'')])])])
     = Inr (Some (Finite 92.5))"
    by code_simp
  have b: "get_coverage (JObj []) = Inr None"
    by code_simp
  have c: "py_float text = Inl ValueError \<longrightarrow>
        get_coverage (JObj [(''commit'', JObj [(''totals'', JObj [(''c'', JStr text)])])])
          = Inl ValueError"
    by (simp add: get_coverage_def coverage_ratio_str_def commit_totals_def dict_get_def
        sum_bind_def json_truthy_def json_float_def)
  from a b c show ?thesis by blast
qed

theorem get_coverage_examples_witness:
  "py_float ''n/a'' = Inl ValueError
   \<and> get_coverage (JObj [(''commit'', JObj [(''totals'', JObj [(''c'', JStr ''n/a'')])])])
       = Inl ValueError"
proof -
  have p: "py_float ''n/a'' = Inl ValueError" by code_simp
  show ?thesis using p get_coverage_examples[of "''n/a''"] by blast
qed

lemma get_regex_cov_caught:
  assumes "search pattern string = Inr (Some groups)"
    and "groups = [] \<or> (\<exists>text rest. groups = Some text # rest \<and> py_float text = Inl ValueError)"
  shows "get_regex_cov search pattern string = Inr None"
  using assms by (auto simp: get_regex_cov_def sum_bind_def)

text \<open>
  C10. The claim is that \<open>get_regex_cov\<close> returns \<open>None\<close> and never raises when the
  pattern matches and its first group gives no number, and so \<open>CICoverage.get_coverage\<close>.
  The handler names IndexError and ValueError, which covers a pattern without a group
  and a captured text that \<open>float\<close> rejects. It misses a first group that took no part
  in the match, as with \<open>(a)?b\<close> on \<open>b\<close>: \<open>match.group(1)\<close> is \<open>None\<close> there,
  \<open>float(None)\<close> raises TypeError, and the TypeError leaves both functions.
\<close>

theorem get_regex_cov_unmatched_group:
  assumes "search pattern string = Inr (Some (None # rest))"
  shows "get_regex_cov search pattern string = Inl TypeError
       \<and> (pattern \<noteq> [] \<longrightarrow> ci_get_coverage search (Some pattern) (Inr string) = Inl TypeError)"
  using assms by (simp add: get_regex_cov_def ci_get_coverage_def sum_bind_def)

theorem get_regex_cov_unmatched_group_witness:
  "get_regex_cov (\<lambda>p s. Inr (Some [None])) ''(a)?b'' ''b'' = Inl TypeError
   \<and> ci_get_coverage (\<lambda>p s. Inr (Some [None])) (Some ''(a)?b'') (Inr ''b'') = Inl TypeError"
  using get_regex_cov_unmatched_group[of "\<lambda>p s. Inr (Some [None])" "''(a)?b''" "''b''" "[]"]
  by simp

section \<open>Properties of the collectors\<close>

lemma collect_result:
  "collect xs = Inr d \<Longrightarrow>
     d = map (\<lambda>(key, r). (key, case r of Inl e \<Rightarrow> Some 0 | Inr v \<Rightarrow> v)) xs"
proof (induction xs arbitrary: d)
  case Nil
  then show ?case by simp
next
  case (Cons x xs)
  obtain key r where x: "x = (key, r)" by (cases x)
  from Cons.prems obtain d' where d': "collect xs = Inr d'"
    by (cases "collect xs") (auto simp: x sum_bind_def split: sum.splits if_splits)
  with Cons.IH have "d' = map (\<lambda>(key, r). (key, case r of Inl e \<Rightarrow> Some 0 | Inr v \<Rightarrow> v)) xs"
    by blast
  with Cons.prems d' show ?case
    by (auto simp: x sum_bind_def split: sum.splits if_splits)
qed

text \<open>
  C9, as the code has it. In the dict that \<open>get_unit_tests\<close> returns, a GitHub Actions
  collector whose fetch raised SitrepsError stands at 0, and a Jenkins collector whose
  download raised stands at \<open>None\<close>.
\<close>

theorem get_unit_tests_failed_fetch:
  assumes "get_unit_tests travis gh_action jenkins = Inr d"
  shows "(gh_action = Some (tool, Inl SitrepsError) \<longrightarrow> map_of d ''gh_action'' = Some (Some 0))
       \<and> (jenkins = Some (tool', Inl e) \<and> is_Exception e \<longrightarrow> map_of d ''jenkins'' = Some None)"
  using collect_result[OF assms[unfolded get_unit_tests_def]]
  by (auto simp: gh_get_num_of_tests_def ci_get_num_of_tests_def split: option.splits)

theorem get_unit_tests_failed_fetch_witness:
  "get_unit_tests None (Some (None, Inl SitrepsError)) (Some (None, Inl DownloadFailed))
     = Inr [(''gh_action'', Some 0), (''jenkins'', None)]
   \<and> is_Exception DownloadFailed
   \<and> map_of [(''gh_action'', Some 0), (''jenkins'', None)] ''gh_action'' = Some (Some (0::nat))
   \<and> map_of [(''gh_action'', Some (0::nat)), (''jenkins'', None)] ''jenkins'' = Some None"
proof -
  have g: "get_unit_tests None (Some (None, Inl SitrepsError)) (Some (None, Inl DownloadFailed))
     = Inr [(''gh_action'', Some 0), (''jenkins'', None)]"
    by code_simp
  have x: "is_Exception DownloadFailed" by (simp add: is_Exception_def)
  show ?thesis
    using g x get_unit_tests_failed_fetch[OF g, of None None DownloadFailed] by simp
qed

text \<open>
  C9 as stated fails: a GitHub Actions collector whose fetch raised SitrepsError is
  reported with 0, exactly as one whose log was scanned and holds no test.
\<close>

theorem failed_fetch_reported_counterexample:
  "get_unit_tests None (Some (None, Inl SitrepsError)) None = Inr [(''gh_action'', Some 0)]
   \<and> get_unit_tests None (Some (None, Inr [''no tests in this log''])) None
       = Inr [(''gh_action'', Some 0)]"
  by code_simp

end
